theory Spec2Isabelle
  imports Complex_Main
begin

section \<open>Strings\<close>

text \<open>
  Python strings are modelled as \<open>string\<close> (lists of 8-bit characters); the
  operations below are the ASCII behaviour of \<open>str.lower\<close>, \<open>in\<close>, \<open>str.strip\<close>,
  \<open>str.split\<close>, \<open>str.join\<close> and \<open>str\<close> on integers.
\<close>

definition lower_char :: "char \<Rightarrow> char" where
  "lower_char c =
     (let n = (of_char c :: nat) in if 65 \<le> n \<and> n \<le> 90 then char_of (n + 32) else c)"

definition lower :: "string \<Rightarrow> string" where
  "lower s = map lower_char s"

fun starts_with :: "string \<Rightarrow> string \<Rightarrow> bool" where
  "starts_with [] t = True"
| "starts_with (p # ps) [] = False"
| "starts_with (p # ps) (c # cs) = (p = c \<and> starts_with ps cs)"

text \<open>\<open>contains p t\<close> is Python's \<open>p in t\<close> on strings.\<close>

fun contains :: "string \<Rightarrow> string \<Rightarrow> bool" where
  "contains p [] = (p = [])"
| "contains p (c # cs) = (starts_with p (c # cs) \<or> contains p cs)"

definition is_space :: "char \<Rightarrow> bool" where
  "is_space c =
     (let n = (of_char c :: nat) in (9 \<le> n \<and> n \<le> 13) \<or> (28 \<le> n \<and> n \<le> 32))"

definition strip :: "string \<Rightarrow> string" where
  "strip s = rev (dropWhile is_space (rev (dropWhile is_space s)))"

text \<open>\<open>split_ws s cur\<close> is \<open>s.split()\<close>, with \<open>cur\<close> the word read so far.\<close>

primrec split_ws :: "string \<Rightarrow> string \<Rightarrow> string list" where
  "split_ws [] cur = (if cur = [] then [] else [cur])"
| "split_ws (c # cs) cur =
     (if is_space c then (if cur = [] then split_ws cs [] else cur # split_ws cs [])
      else split_ws cs (cur @ [c]))"

definition split :: "string \<Rightarrow> string list" where
  "split s = split_ws s []"

fun join :: "string \<Rightarrow> string list \<Rightarrow> string" where
  "join sep [] = []"
| "join sep [x] = x"
| "join sep (x # y # ys) = x @ sep @ join sep (y # ys)"

definition digit_char :: "nat \<Rightarrow> char" where
  "digit_char d = char_of (48 + d)"

function str_nat :: "nat \<Rightarrow> string" where
  "str_nat n = (if n < 10 then [digit_char n] else str_nat (n div 10) @ [digit_char (n mod 10)])"
  by pat_completeness auto
termination
  by (relation "measure (\<lambda>n. n)") auto

definition str_int :: "int \<Rightarrow> string" where
  "str_int i = (if i < 0 then CHR ''-'' # str_nat (nat (- i)) else str_nat (nat i))"

section \<open>Exceptions\<close>

text \<open>
  The exceptions of the model: \<open>IndexError\<close> from \<open>command.split()[0]\<close> on a command
  that is not empty and holds white space only; \<open>ValueError\<close> from \<open>time.sleep\<close> on a
  negative delay; \<open>OverflowError\<close> from the conversion of an \<open>int\<close> too large for a
  \<open>float\<close>; and the exceptions of \<open>subprocess.run\<close> that a caller does not catch, with
  their text.
\<close>

datatype exn = IndexError | ValueError | OverflowError | SubprocessError string

fun str_exn :: "exn \<Rightarrow> string" where
  "str_exn IndexError = ''list index out of range''"
| "str_exn ValueError = ''sleep length must be non-negative''"
| "str_exn OverflowError = ''int too large to convert to float''"
| "str_exn (SubprocessError e) = e"

section \<open>Retry strategies\<close>

text \<open>
  \<open>subprocess_client.py\<close>: \<open>ConstantDelayStrategy\<close> and \<open>ExponentialBackoffStrategy\<close>,
  the two implementations of \<open>RetryStrategy\<close>. Python floats are modelled as real
  numbers, with one exception of the float arithmetic kept: in
  \<open>initial_delay * (2 ** attempt)\<close> the \<open>int\<close> \<open>2 ** attempt\<close> is converted to a
  \<open>float\<close>, which raises \<open>OverflowError\<close> from \<open>2 ** 1024\<close> on.
  \<open>random.uniform a b\<close> is \<open>a + (b - a) * random.random()\<close>; the value \<open>u\<close> of
  \<open>random.random()\<close> is an argument of the model.
\<close>

datatype RetryStrategy =
    ConstantDelayStrategy (delay: real)
  | ExponentialBackoffStrategy (initial_delay: real) (max_delay: real) (jitter: real)
      (retry_patterns: "string list")

definition uniform :: "real \<Rightarrow> real \<Rightarrow> real \<Rightarrow> real" where
  "uniform a b u = a + (b - a) * u"

text \<open>\<open>float(2 ** attempt)\<close>, as the multiplication by a \<open>float\<close> computes it.\<close>

definition pow2_float :: "nat \<Rightarrow> exn + real" where
  "pow2_float attempt = (if attempt < 1024 then Inr (2 ^ attempt) else Inl OverflowError)"

fun get_delay :: "RetryStrategy \<Rightarrow> nat \<Rightarrow> real \<Rightarrow> exn + real" where
  "get_delay (ConstantDelayStrategy d) attempt u = Inr d"
| "get_delay (ExponentialBackoffStrategy i m j ps) attempt u =
     (case pow2_float attempt of
        Inl e \<Rightarrow> Inl e
      | Inr p \<Rightarrow>
          (let base_delay = min (i * p) m in
           if j > 0 then
             (let jitter_range = base_delay * j;
                  jitter_value = uniform (- jitter_range) jitter_range u
              in Inr (max 0 (base_delay + jitter_value)))
           else Inr base_delay))"

text \<open>Whether \<open>get_delay\<close> draws a random number.\<close>

fun draws_random :: "RetryStrategy \<Rightarrow> bool" where
  "draws_random (ConstantDelayStrategy d) = False"
| "draws_random (ExponentialBackoffStrategy i m j ps) = (j > 0)"

fun should_retry :: "RetryStrategy \<Rightarrow> string \<Rightarrow> int \<Rightarrow> bool" where
  "should_retry (ConstantDelayStrategy d) error_output return_code = True"
| "should_retry (ExponentialBackoffStrategy i m j ps) error_output return_code =
     (if ps = [] then True
      else (let error_lower = lower error_output
            in list_ex (\<lambda>pattern. contains (lower pattern) error_lower) ps))"

section \<open>The GitHub CLI client's delay\<close>

text \<open>\<open>gh_client.py\<close>: \<open>GHClientConfig\<close> and \<open>GHClient._calculate_delay\<close>.\<close>

record GHClientConfig =
  gh_max_retries :: int
  gh_initial_delay :: real
  gh_max_delay :: real
  gh_jitter :: real
  gh_verbose :: bool

definition default_GHClientConfig :: GHClientConfig where
  "default_GHClientConfig =
     \<lparr>gh_max_retries = 25, gh_initial_delay = 2, gh_max_delay = 300, gh_jitter = 1 / 10,
      gh_verbose = False\<rparr>"

definition calculate_delay :: "GHClientConfig \<Rightarrow> nat \<Rightarrow> real \<Rightarrow> exn + real" where
  "calculate_delay cfg attempt u =
     (case pow2_float attempt of
        Inl e \<Rightarrow> Inl e
      | Inr p \<Rightarrow>
          (let base_delay = min (gh_initial_delay cfg * p) (gh_max_delay cfg) in
           if gh_jitter cfg > 0 then
             (let jitter_range = base_delay * gh_jitter cfg;
                  jitter_value = uniform (- jitter_range) jitter_range u
              in Inr (max 0 (base_delay + jitter_value)))
           else Inr base_delay))"

section \<open>Error classification\<close>

text \<open>
  \<open>error_handling.py\<close>. Every regular expression of the default table is a sequence of
  literal pieces joined by \<open>.*\<close>, so a pattern is modelled as the list of its pieces:
  \<open>dial tcp.*timeout\<close> is \<open>[''dial tcp'', ''timeout'']\<close>. Custom patterns are taken
  from the same fragment. \<open>re_search\<close> is \<open>re.search\<close> with \<open>re.IGNORECASE\<close>: the
  first piece may start anywhere, each \<open>.*\<close> matches any run of characters other than
  the newline.
\<close>

type_synonym regex = "string list"

fun re_from :: "regex \<Rightarrow> string \<Rightarrow> bool" where
  "re_from [] t = True"
| "re_from (p # ps) [] = (p = [] \<and> re_from ps [])"
| "re_from (p # ps) (c # cs) =
     ((starts_with p (c # cs) \<and> re_from ps (drop (length p) (c # cs))) \<or>
      (c \<noteq> CHR 0x0A \<and> re_from (p # ps) cs))"

fun re_match_here :: "regex \<Rightarrow> string \<Rightarrow> bool" where
  "re_match_here [] t = True"
| "re_match_here (p # ps) t = (starts_with p t \<and> re_from ps (drop (length p) t))"

fun re_scan :: "regex \<Rightarrow> string \<Rightarrow> bool" where
  "re_scan r [] = re_match_here r []"
| "re_scan r (c # cs) = (re_match_here r (c # cs) \<or> re_scan r cs)"

definition re_search :: "regex \<Rightarrow> string \<Rightarrow> bool" where
  "re_search r text = re_scan (map lower r) (lower text)"

record ErrorInfo =
  error_type :: string
  is_error :: bool
  message :: string
  suggestion :: string
  recoverable :: bool

record ErrorPatternSet =
  ps_name :: string
  ps_patterns :: "regex list"
  ps_error_type :: string
  ps_message :: string
  ps_suggestion :: string
  ps_recoverable :: bool

record ErrorPatternDetector =
  det_timeout :: int
  pattern_sets :: "ErrorPatternSet list"
  custom_patterns :: "ErrorPatternSet list"

definition get_default_patterns :: "ErrorPatternSet list" where
  "get_default_patterns =
    [\<lparr>ps_name = ''sso-auth'',
      ps_patterns =
        [[''To sign in, use a web browser''],
         [''please run az login''],
         [''authentication required''],
         [''login required''],
         [''Please re-run azure login''],
         [''interactive authentication is needed''],
         [''https://microsoft.com/devicelogin''],
         [''enter the code '', '' to authenticate''],
         [''authentication via web browser'', ''required'']],
      ps_error_type = ''sso-required'',
      ps_message = ''SSO authentication required'',
      ps_suggestion = ''Please complete SSO authentication in your web browser and retry'',
      ps_recoverable = True\<rparr>,
     \<lparr>ps_name = ''tls-cert'',
      ps_patterns =
        [[''tls: failed to verify certificate''],
         [''certificate verify failed''],
         [''x509: certificate''],
         [''certificate signed by unknown authority''],
         [''certificate has expired''],
         [''certificate is not valid''],
         [''ssl certificate problem'']],
      ps_error_type = ''tls-error'',
      ps_message = ''TLS certificate verification failed'',
      ps_suggestion = ''Use --skip-tls-verify flag (INSECURE) or contact your administrator to fix certificate issues'',
      ps_recoverable = True\<rparr>,
     \<lparr>ps_name = ''network'',
      ps_patterns =
        [[''connection refused''],
         [''network is unreachable''],
         [''timeout''],
         [''connection timed out''],
         [''dial tcp'', ''timeout''],
         [''no route to host''],
         [''temporary failure in name resolution'']],
      ps_error_type = ''network-error'',
      ps_message = ''Network connectivity issue'',
      ps_suggestion = ''Check network connectivity and endpoint configuration'',
      ps_recoverable = True\<rparr>,
     \<lparr>ps_name = ''permission'',
      ps_patterns =
        [[''forbidden''],
         [''unauthorized''],
         [''access denied''],
         [''permission denied''],
         [''user'', ''cannot'', ''get''],
         [''RBAC'', ''denied'']],
      ps_error_type = ''permission-error'',
      ps_message = ''Permission denied or insufficient permissions'',
      ps_suggestion = ''Contact your administrator to check permissions'',
      ps_recoverable = False\<rparr>,
     \<lparr>ps_name = ''service-not-found'',
      ps_patterns =
        [[''service not found''],
         [''no records found''],
         [''service'', ''does not exist''],
         [''could not find'', ''service'']],
      ps_error_type = ''service-not-found'',
      ps_message = ''Service not found in system'',
      ps_suggestion = ''Verify the service name and check if it exists in the target environment'',
      ps_recoverable = False\<rparr>]"

definition new_ErrorPatternDetector :: "int \<Rightarrow> ErrorPatternDetector" where
  "new_ErrorPatternDetector t =
     \<lparr>det_timeout = t, pattern_sets = get_default_patterns, custom_patterns = []\<rparr>"

definition add_pattern_set :: "ErrorPatternDetector \<Rightarrow> ErrorPatternSet \<Rightarrow> ErrorPatternDetector" where
  "add_pattern_set det pattern_set = det\<lparr>custom_patterns := custom_patterns det @ [pattern_set]\<rparr>"

definition add_simple_pattern ::
  "ErrorPatternDetector \<Rightarrow> regex \<Rightarrow> string \<Rightarrow> string \<Rightarrow> string \<Rightarrow> bool \<Rightarrow> ErrorPatternDetector" where
  "add_simple_pattern det pattern etype msg sugg recov =
     add_pattern_set det
       \<lparr>ps_name = ''custom-'' @ etype, ps_patterns = [pattern], ps_error_type = etype,
        ps_message = msg, ps_suggestion = sugg, ps_recoverable = recov\<rparr>"

definition matches_pattern_set :: "string \<Rightarrow> ErrorPatternSet \<Rightarrow> bool" where
  "matches_pattern_set output pattern_set =
     list_ex (\<lambda>pattern. re_search pattern output) (ps_patterns pattern_set)"

definition pattern_error :: "ErrorPatternSet \<Rightarrow> ErrorInfo" where
  "pattern_error pattern_set =
     \<lparr>error_type = ps_error_type pattern_set, is_error = True, message = ps_message pattern_set,
      suggestion = ps_suggestion pattern_set, recoverable = ps_recoverable pattern_set\<rparr>"

definition detect_error_patterns ::
  "ErrorPatternDetector \<Rightarrow> string \<Rightarrow> int \<Rightarrow> string \<Rightarrow> exn + ErrorInfo" where
  "detect_error_patterns det output return_code command =
     (case find (matches_pattern_set output) (custom_patterns det) of
        Some pattern_set \<Rightarrow> Inr (pattern_error pattern_set)
      | None \<Rightarrow>
     (case find (matches_pattern_set output) (pattern_sets det) of
        Some pattern_set \<Rightarrow> Inr (pattern_error pattern_set)
      | None \<Rightarrow>
     (if return_code = 127 \<or> contains ''command not found'' (lower output) then
        (if command = [] then
           Inr \<lparr>error_type = ''command-not-found'', is_error = True,
                message = ''Command not found: '' @ ''unknown'',
                suggestion = ''Ensure the required command is installed and in PATH'',
                recoverable = False\<rparr>
         else
           (case split command of
              [] \<Rightarrow> Inl IndexError
            | cmd_name # rest \<Rightarrow>
                Inr \<lparr>error_type = ''command-not-found'', is_error = True,
                     message = ''Command not found: '' @ cmd_name,
                     suggestion = ''Ensure the required command is installed and in PATH'',
                     recoverable = False\<rparr>))
      else if return_code = 124 \<or> re_search [''timeout''] output \<or> re_search [''timed out''] output then
        Inr \<lparr>error_type = ''timeout'', is_error = True,
             message = ''Command timed out after '' @ str_int (det_timeout det) @ '' seconds'',
             suggestion = ''Try increasing timeout or check for hanging processes'',
             recoverable = True\<rparr>
      else if return_code \<noteq> 0 then
        Inr \<lparr>error_type = ''generic-error'', is_error = True,
             message = ''Command failed with return code '' @ str_int return_code,
             suggestion = ''Check command output for details'',
             recoverable = True\<rparr>
      else
        Inr \<lparr>error_type = ''success'', is_error = False,
             message = ''Command completed successfully'',
             suggestion = [],
             recoverable = True\<rparr>)))"

section \<open>Command execution with retries\<close>

text \<open>
  \<open>subprocess_client.py\<close>: \<open>SubprocessClient.execute_command\<close>. The operating system
  is an \<open>environment\<close>: \<open>run env k\<close> is what the \<open>k\<close>-th call of \<open>subprocess.run\<close>
  does (the calls are counted from 0), and \<open>random env k\<close> is the \<open>k\<close>-th value of
  \<open>random.random()\<close>. A \<open>trace\<close> records the effects: the number of processes
  spawned, the delays slept by \<open>time.sleep\<close> in order, and the number of random values
  drawn. The delay is computed and slept before the \<open>try\<close> statement, so that an
  exception of \<open>get_delay\<close> or of \<open>time.sleep\<close> leaves \<open>execute_command\<close>: the result
  is then \<open>Inl\<close> of the exception, with the trace up to it. Printing and the wall-clock
  field \<open>execution_time\<close> are left out.
\<close>

record pattern_config =
  pc_error_type :: "string option"
  pc_message :: "string option"
  pc_suggestion :: "string option"
  pc_recoverable :: "bool option"

record CommandConfig =
  timeout :: int
  retries :: int
  retry_delay :: real
  combine_output :: bool
  check_return_code :: bool
  verbose :: bool
  custom_error_patterns :: "(regex \<times> pattern_config) list option"
  retry_strategy :: "RetryStrategy option"

definition default_CommandConfig :: CommandConfig where
  "default_CommandConfig =
     \<lparr>timeout = 30, retries = 0, retry_delay = 1, combine_output = True,
      check_return_code = True, verbose = False, custom_error_patterns = None,
      retry_strategy = None\<rparr>"

record CommandResult =
  success :: bool
  "output" :: string
  error_output :: string
  return_code :: int
  command :: string
  error_info :: "ErrorInfo option"

record SubprocessClient =
  config :: CommandConfig
  error_detector :: ErrorPatternDetector

definition get_or :: "'a option \<Rightarrow> 'a \<Rightarrow> 'a" where
  "get_or v d = (case v of Some x \<Rightarrow> x | None \<Rightarrow> d)"

definition add_custom :: "ErrorPatternDetector \<Rightarrow> regex \<times> pattern_config \<Rightarrow> ErrorPatternDetector" where
  "add_custom det item =
     add_simple_pattern det (fst item)
       (get_or (pc_error_type (snd item)) ''custom'')
       (get_or (pc_message (snd item)) ''Custom error detected'')
       (get_or (pc_suggestion (snd item)) [])
       (get_or (pc_recoverable (snd item)) True)"

definition new_SubprocessClient :: "CommandConfig option \<Rightarrow> SubprocessClient" where
  "new_SubprocessClient cfg =
     (let c = get_or cfg default_CommandConfig in
      \<lparr>config = c,
       error_detector =
         foldl add_custom (new_ErrorPatternDetector (timeout c))
           (get_or (custom_error_patterns c) [])\<rparr>)"

datatype cmd = Str string | Args "string list"

datatype run_outcome =
    Completed string string int
  | TimeoutExpired
  | FileNotFoundError
  | OtherError string

record environment =
  run :: "nat \<Rightarrow> run_outcome"
  random :: "nat \<Rightarrow> real"

record trace =
  calls :: nat
  sleeps :: "real list"
  draws :: nat

definition no_trace :: trace where
  "no_trace = \<lparr>calls = 0, sleeps = [], draws = 0\<rparr>"

datatype flow = Break | Continue

text \<open>The delay of the retry: the strategy's \<open>get_delay n\<close>, or \<open>retry_delay\<close>.\<close>

definition next_delay ::
  "CommandConfig \<Rightarrow> environment \<Rightarrow> nat \<Rightarrow> trace \<Rightarrow> (exn + real) \<times> trace" where
  "next_delay cfg env n tr =
     (case retry_strategy cfg of
        Some s \<Rightarrow>
          (case get_delay s n (random env (draws tr)) of
             Inl e \<Rightarrow> (Inl e, tr)
           | Inr d \<Rightarrow> (Inr d, if draws_random s then tr\<lparr>draws := draws tr + 1\<rparr> else tr))
      | None \<Rightarrow> (Inr (retry_delay cfg), tr))"

text \<open>\<open>time.sleep\<close>: a negative delay raises \<open>ValueError\<close>.\<close>

definition sleep :: "real \<Rightarrow> trace \<Rightarrow> exn + trace" where
  "sleep d tr = (if d < 0 then Inl ValueError else Inr (tr\<lparr>sleeps := sleeps tr @ [d]\<rparr>))"

definition timeout_result :: "CommandConfig \<Rightarrow> string \<Rightarrow> CommandResult" where
  "timeout_result cfg cmd_string =
     \<lparr>success = False,
      output = ''Command timed out after '' @ str_int (timeout cfg) @ '' seconds'',
      error_output = [],
      return_code = 124,
      command = cmd_string,
      error_info = Some
        \<lparr>error_type = ''timeout'', is_error = True,
         message = ''Command timed out after '' @ str_int (timeout cfg) @ '' seconds'',
         suggestion = ''Try increasing timeout or check for hanging processes'',
         recoverable = True\<rparr>\<rparr>"

definition not_found_result :: "string list \<Rightarrow> string \<Rightarrow> CommandResult" where
  "not_found_result cmd_list cmd_string =
     (let cmd_name = (case cmd_list of [] \<Rightarrow> ''unknown'' | c # cs \<Rightarrow> c) in
      \<lparr>success = False,
       output = ''Command not found: '' @ cmd_name,
       error_output = [],
       return_code = 127,
       command = cmd_string,
       error_info = Some
         \<lparr>error_type = ''command-not-found'', is_error = True,
          message = ''Command not found: '' @ cmd_name,
          suggestion = ''Ensure the command is installed and in PATH'',
          recoverable = False\<rparr>\<rparr>)"

definition exception_result :: "string \<Rightarrow> string \<Rightarrow> CommandResult" where
  "exception_result cmd_string e =
     \<lparr>success = False,
      output = ''Execution error: '' @ e,
      error_output = [],
      return_code = 1,
      command = cmd_string,
      error_info = Some
        \<lparr>error_type = ''execution-error'', is_error = True,
         message = ''Command execution failed: '' @ e,
         suggestion = ''Check command syntax and system resources'',
         recoverable = True\<rparr>\<rparr>"

definition no_execution_result :: "string \<Rightarrow> CommandResult" where
  "no_execution_result cmd_string =
     \<lparr>success = False,
      output = ''No execution attempted'',
      error_output = [],
      return_code = 1,
      command = cmd_string,
      error_info = Some
        \<lparr>error_type = ''no-execution'', is_error = True,
         message = ''No execution attempted'', suggestion = [], recoverable = False\<rparr>\<rparr>"

text \<open>\<open>if attempt < config.retries: continue else: break\<close>\<close>

definition retry_if_configured :: "CommandConfig \<Rightarrow> nat \<Rightarrow> flow" where
  "retry_if_configured cfg attempt = (if int attempt < retries cfg then Continue else Break)"

text \<open>
  The \<open>try\<close> statement for one outcome of \<open>subprocess.run\<close>, up to the message of the
  verbose branch: the result stored in \<open>last_result\<close>, how the loop goes on, and whether
  the verbose branch calls \<open>get_delay attempt\<close> for its message. An exception of the
  classifier is caught by \<open>except Exception\<close>, as an exception of \<open>subprocess.run\<close> is.
\<close>

fun attempt_result ::
  "CommandConfig \<Rightarrow> ErrorPatternDetector \<Rightarrow> string list \<Rightarrow> string \<Rightarrow> nat \<Rightarrow> run_outcome \<Rightarrow>
   CommandResult \<times> flow \<times> bool" where
  "attempt_result cfg det cmd_list cmd_string attempt (Completed so se rc) =
     (let out = (if combine_output cfg then so @ se else so);
          err_out = se
      in case detect_error_patterns det out rc cmd_string of
           Inl e \<Rightarrow> (exception_result cmd_string (str_exn e), retry_if_configured cfg attempt, False)
         | Inr info \<Rightarrow>
             (let succ = (rc = 0 \<and> (\<not> check_return_code cfg \<or> \<not> is_error info));
                  last_result =
                    \<lparr>success = succ, output = out, error_output = err_out, return_code = rc,
                     command = cmd_string, error_info = Some info\<rparr>
              in if succ \<or> \<not> recoverable info then (last_result, Break, False)
                 else if (case retry_strategy cfg of
                            Some s \<Rightarrow> \<not> should_retry s out rc
                          | None \<Rightarrow> False)
                 then (last_result, Break, False)
                 else (last_result, Continue,
                       verbose cfg \<and> is_error info \<and> recoverable info \<and> int attempt < retries cfg)))"
| "attempt_result cfg det cmd_list cmd_string attempt TimeoutExpired =
     (timeout_result cfg cmd_string, retry_if_configured cfg attempt, False)"
| "attempt_result cfg det cmd_list cmd_string attempt FileNotFoundError =
     (not_found_result cmd_list cmd_string, Break, False)"
| "attempt_result cfg det cmd_list cmd_string attempt (OtherError e) =
     (exception_result cmd_string e, retry_if_configured cfg attempt, False)"

text \<open>
  The start of an iteration: \<open>if attempt > 0\<close>, the delay is computed and slept.
\<close>

definition before_attempt :: "CommandConfig \<Rightarrow> environment \<Rightarrow> nat \<Rightarrow> trace \<Rightarrow> exn + trace" where
  "before_attempt cfg env attempt tr =
     (if attempt > 0
      then (case next_delay cfg env (attempt - 1) tr of
              (Inl e, t) \<Rightarrow> Inl e
            | (Inr d, t) \<Rightarrow> sleep d t)
      else Inr tr)"

text \<open>
  The \<open>try\<close> statement of an iteration: the process and its classification. The
  \<open>get_delay attempt\<close> of the verbose branch is inside the \<open>try\<close>: its exception is
  caught by \<open>except Exception\<close>, which replaces \<open>last_result\<close>.
\<close>

definition run_attempt ::
  "CommandConfig \<Rightarrow> ErrorPatternDetector \<Rightarrow> environment \<Rightarrow> string list \<Rightarrow> string \<Rightarrow> nat \<Rightarrow>
   trace \<Rightarrow> (CommandResult \<times> flow) \<times> trace" where
  "run_attempt cfg det env cmd_list cmd_string attempt tr1 =
     (let outcome = run env (calls tr1);
          tr2 = tr1\<lparr>calls := calls tr1 + 1\<rparr>
      in case attempt_result cfg det cmd_list cmd_string attempt outcome of
           (r, fl, peek) \<Rightarrow>
             if peek then
               (case next_delay cfg env attempt tr2 of
                  (Inl e, t) \<Rightarrow>
                    ((exception_result cmd_string (str_exn e), retry_if_configured cfg attempt), t)
                | (Inr d, t) \<Rightarrow> ((r, fl), t))
             else ((r, fl), tr2))"

text \<open>\<open>for attempt in range(config.retries + 1)\<close>, over the list of the attempt numbers.\<close>

fun attempts ::
  "CommandConfig \<Rightarrow> ErrorPatternDetector \<Rightarrow> environment \<Rightarrow> string list \<Rightarrow> string \<Rightarrow> nat list \<Rightarrow>
   CommandResult option \<Rightarrow> trace \<Rightarrow> (exn + CommandResult option) \<times> trace" where
  "attempts cfg det env cmd_list cmd_string [] last_result tr = (Inr last_result, tr)"
| "attempts cfg det env cmd_list cmd_string (attempt # rest) last_result tr =
     (case before_attempt cfg env attempt tr of
        Inl e \<Rightarrow> (Inl e, tr)
      | Inr tr1 \<Rightarrow>
          (case run_attempt cfg det env cmd_list cmd_string attempt tr1 of
             ((r, Break), tr') \<Rightarrow> (Inr (Some r), tr')
           | ((r, Continue), tr') \<Rightarrow>
               attempts cfg det env cmd_list cmd_string rest (Some r) tr'))"

text \<open>\<open>command.split() if isinstance(command, str) else command\<close>\<close>

fun cmd_list_of :: "cmd \<Rightarrow> string list" where
  "cmd_list_of (Str s) = split s"
| "cmd_list_of (Args xs) = xs"

definition execute_command ::
  "SubprocessClient \<Rightarrow> cmd \<Rightarrow> CommandConfig option \<Rightarrow> environment \<Rightarrow>
   (exn + CommandResult) \<times> trace" where
  "execute_command client cmnd override_config env =
     (let cfg = get_or override_config (config client);
          cmd_list = cmd_list_of cmnd;
          cmd_string = join '' '' cmd_list
      in case attempts cfg (error_detector client) env cmd_list cmd_string
                [0..<nat (retries cfg + 1)] None no_trace of
           (Inl e, tr) \<Rightarrow> (Inl e, tr)
         | (Inr last_result, tr) \<Rightarrow>
             (Inr (get_or last_result (no_execution_result cmd_string)), tr))"

subsection \<open>Notions used to state the properties of the retry loop\<close>

text \<open>
  A scripted source, as a test stub gives one: the listed values in order, then a
  default.
\<close>

definition stub :: "'a list \<Rightarrow> 'a \<Rightarrow> nat \<Rightarrow> 'a" where
  "stub xs d k = (if k < length xs then xs ! k else d)"

text \<open>
  What the delay of retry \<open>k + 1\<close>, that is \<open>get_delay k\<close> or \<open>retry_delay\<close>, raises
  when it is computed, and when it is computed and slept: \<open>OverflowError\<close> from
  \<open>get_delay\<close>, \<open>ValueError\<close> from \<open>time.sleep\<close>, or nothing. The jitter branch of
  the exponential strategy clamps its delay at 0, so that the random value does not
  matter.
\<close>

fun strategy_delay_error :: "RetryStrategy \<Rightarrow> nat \<Rightarrow> exn option" where
  "strategy_delay_error (ConstantDelayStrategy d) k = (if d < 0 then Some ValueError else None)"
| "strategy_delay_error (ExponentialBackoffStrategy i m j ps) k =
     (if 1024 \<le> k then Some OverflowError
      else if \<not> 0 < j \<and> min (i * 2 ^ k) m < 0 then Some ValueError
      else None)"

definition retry_delay_error :: "CommandConfig \<Rightarrow> nat \<Rightarrow> exn option" where
  "retry_delay_error cfg k =
     (case retry_strategy cfg of
        Some s \<Rightarrow> strategy_delay_error s k
      | None \<Rightarrow> if retry_delay cfg < 0 then Some ValueError else None)"

definition compute_delay_error :: "CommandConfig \<Rightarrow> nat \<Rightarrow> exn option" where
  "compute_delay_error cfg k =
     (case retry_strategy cfg of
        Some (ExponentialBackoffStrategy i m j ps) \<Rightarrow> if 1024 \<le> k then Some OverflowError else None
      | Some (ConstantDelayStrategy d) \<Rightarrow> None
      | None \<Rightarrow> None)"

text \<open>What attempt \<open>k\<close> stores in \<open>last_result\<close>, and how the loop goes on after it.\<close>

definition attempt_value ::
  "CommandConfig \<Rightarrow> ErrorPatternDetector \<Rightarrow> environment \<Rightarrow> string list \<Rightarrow> string \<Rightarrow> nat \<Rightarrow>
   CommandResult" where
  "attempt_value cfg det env cmd_list cmd_string k =
     (case attempt_result cfg det cmd_list cmd_string k (run env k) of
        (r, fl, peek) \<Rightarrow>
          (case compute_delay_error cfg k of
             Some e \<Rightarrow> if peek then exception_result cmd_string (str_exn e) else r
           | None \<Rightarrow> r))"

definition attempt_flow ::
  "CommandConfig \<Rightarrow> ErrorPatternDetector \<Rightarrow> environment \<Rightarrow> string list \<Rightarrow> string \<Rightarrow> nat \<Rightarrow> flow" where
  "attempt_flow cfg det env cmd_list cmd_string k =
     fst (snd (attempt_result cfg det cmd_list cmd_string k (run env k)))"



text \<open>An environment in which every process has the same outcome.\<close>

definition always :: "run_outcome \<Rightarrow> environment" where
  "always outcome = \<lparr>run = stub [] outcome, random = stub [] 0\<rparr>"

section \<open>Retrying on rate limits\<close>

text \<open>
  \<open>gh_client.py\<close>: \<open>GHClient._retry_with_backoff\<close>, with \<open>run_command\<close> and
  \<open>run_graphql\<close>. The message returned when the retries are exhausted holds a time stamp;
  it is kept as a value of its own, with the standard error text, the label prefix, the
  number of retries and the total wait it is formatted from. \<open>subprocess.run\<close> is called
  without a timeout here; only \<open>FileNotFoundError\<close> is caught, so that another exception
  of \<open>subprocess.run\<close>, of \<open>_calculate_delay\<close> or of \<open>time.sleep\<close> is the \<open>Inl\<close>
  result. Printing is left out.
\<close>

datatype gh_output = Text string | Rate_limit_exceeded string string int real

fun gh_attempts ::
  "GHClientConfig \<Rightarrow> int \<Rightarrow> string \<Rightarrow> bool \<Rightarrow> bool \<Rightarrow> string \<Rightarrow> environment \<Rightarrow> nat list \<Rightarrow>
   real \<Rightarrow> trace \<Rightarrow> (exn + bool \<times> gh_output) \<times> trace" where
  "gh_attempts cfg n_retries label_prefix check_stdout_for_rate_limit return_stdout_on_error
     rate_limit_exhausted_output env [] total_wait tr =
     (Inr (False, Text ''Max retries exceeded''), tr)"
| "gh_attempts cfg n_retries label_prefix check_stdout_for_rate_limit return_stdout_on_error
     rate_limit_exhausted_output env (attempt # rest) total_wait tr =
     (let tr1 = tr\<lparr>calls := calls tr + 1\<rparr> in
      case run env (calls tr) of
        Completed so se rc \<Rightarrow>
          (let stdout = strip so; stderr = strip se in
           if rc = 0 then (Inr (True, Text stdout), tr1)
           else
             (let is_rate_limited =
                    (contains ''rate limit'' (lower stderr) \<or>
                     (check_stdout_for_rate_limit \<and> contains ''rate_limit'' (lower stdout)))
              in if is_rate_limited then
                   (if int attempt < n_retries - 1 then
                      (case calculate_delay cfg attempt (random env (draws tr1)) of
                         Inl e \<Rightarrow> (Inl e, tr1)
                       | Inr wait_time \<Rightarrow>
                           (let tr2 = (if gh_jitter cfg > 0 then tr1\<lparr>draws := draws tr1 + 1\<rparr>
                                       else tr1)
                            in case sleep wait_time tr2 of
                                 Inl e \<Rightarrow> (Inl e, tr2)
                               | Inr tr3 \<Rightarrow>
                                   gh_attempts cfg n_retries label_prefix
                                     check_stdout_for_rate_limit return_stdout_on_error
                                     rate_limit_exhausted_output env rest
                                     (total_wait + wait_time) tr3))
                    else if rate_limit_exhausted_output \<noteq> []
                      then (Inr (False, Text rate_limit_exhausted_output), tr1)
                    else (Inr (False, Rate_limit_exceeded stderr label_prefix n_retries total_wait), tr1))
                 else if return_stdout_on_error then (Inr (False, Text stdout), tr1)
                 else (Inr (False, Text stderr), tr1)))
      | FileNotFoundError \<Rightarrow>
          (if return_stdout_on_error then (Inr (False, Text []), tr1)
           else (Inr (False, Text ''gh CLI not found. Install with: brew install gh''), tr1))
      | TimeoutExpired \<Rightarrow> (Inl (SubprocessError ''TimeoutExpired''), tr1)
      | OtherError e \<Rightarrow> (Inl (SubprocessError e), tr1))"

definition retry_with_backoff ::
  "GHClientConfig \<Rightarrow> string list \<Rightarrow> int option \<Rightarrow> string \<Rightarrow> bool \<Rightarrow> bool \<Rightarrow> string \<Rightarrow>
   environment \<Rightarrow> (exn + bool \<times> gh_output) \<times> trace" where
  "retry_with_backoff cfg cmnd max_retries label check_stdout_for_rate_limit
     return_stdout_on_error rate_limit_exhausted_output env =
     (let n_retries = get_or max_retries (gh_max_retries cfg);
          label_prefix = (if label \<noteq> [] then label @ '' '' else [])
      in gh_attempts cfg n_retries label_prefix check_stdout_for_rate_limit return_stdout_on_error
           rate_limit_exhausted_output env [0..<nat n_retries] 0 no_trace)"


definition run_graphql ::
  "GHClientConfig \<Rightarrow> string \<Rightarrow> int option \<Rightarrow> environment \<Rightarrow>
   (exn + bool \<times> gh_output) \<times> trace" where
  "run_graphql cfg query max_retries env =
     retry_with_backoff cfg [''gh'', ''api'', ''graphql'', ''-f'', ''query='' @ query] max_retries
       ''GraphQL'' True True [] env"




section \<open>CI status of a merged pull request\<close>

text \<open>
  \<open>pr_quality_check.py\<close>: \<open>check_post_merge_ci_status\<close>. The hosting service is a
  \<open>remote\<close>: what \<open>run_gh_command\<close> answers to the query for the pull request, as a
  success flag and the decoded JSON (the \<open>oid\<close> of \<open>mergeCommit\<close>, if there is one); what
  it answers to the query for the check-runs of a commit, as a success flag and the lines
  of the output; and the step names \<open>get_job_steps\<close> finds for a job. A line is empty,
  or is not JSON, or is an object with the fields the \<open>jq\<close> filter selects, a field being
  \<open>None\<close> when the object has no value for it.
\<close>

record check_run =
  cr_id :: "int option"
  cr_name :: "string option"
  cr_status :: "string option"
  cr_conclusion :: "string option"
  cr_html_url :: "string option"

datatype check_line = Blank | Invalid_json | Check check_run

datatype pr_json = Pr_invalid_json | Pr_data "string option"

record remote =
  pr_view :: "bool \<times> pr_json"
  check_runs :: "string \<Rightarrow> bool \<times> check_line list"
  get_job_steps :: "int \<Rightarrow> string list"

record CICheckResult =
  status :: string
  failed_checks :: "string list"
  failed_check_urls :: "string list"
  check_names :: "string list"
  has_build_check :: bool
  has_test_check :: bool
  build_evidence :: string
  test_evidence :: string

text \<open>\<open>CICheckResult(status=s)\<close>, every other field at its default.\<close>

definition new_CICheckResult :: "string \<Rightarrow> CICheckResult" where
  "new_CICheckResult s =
     \<lparr>status = s, failed_checks = [], failed_check_urls = [], check_names = [],
      has_build_check = False, has_test_check = False, build_evidence = [], test_evidence = []\<rparr>"

definition BUILD_CHECK_PATTERNS :: "string list" where
  "BUILD_CHECK_PATTERNS =
     [''build'', ''compile'', ''make'', ''gradle'', ''maven'', ''cargo'', ''npm run build'',
      ''yarn build'', ''webpack'', ''tsc'', ''javac'', ''gcc'', ''cmake'', ''bazel'']"

definition TEST_CHECK_PATTERNS :: "string list" where
  "TEST_CHECK_PATTERNS =
     [''test'', ''spec'', ''jest'', ''pytest'', ''junit'', ''mocha'', ''karma'', ''cypress'',
      ''selenium'', ''unittest'', ''rspec'', ''minitest'', ''coverage'', ''e2e'']"

definition any_in :: "string list \<Rightarrow> string \<Rightarrow> bool" where
  "any_in patterns text = list_ex (\<lambda>p. contains p text) patterns"

text \<open>
  The loop of \<open>check_steps_for_build_test\<close> over the step names, on
  \<open>(has_build, has_test, build_evidence, test_evidence)\<close>.
\<close>

fun steps_loop :: "string list \<Rightarrow> bool \<times> bool \<times> string \<times> string \<Rightarrow> bool \<times> bool \<times> string \<times> string" where
  "steps_loop [] acc = acc"
| "steps_loop (step_name # rest) (has_build, has_test, build_ev, test_ev) =
     (let step_lower = lower step_name;
          found_build = (\<not> has_build \<and> any_in BUILD_CHECK_PATTERNS step_lower);
          has_build1 = (has_build \<or> found_build);
          build_ev1 = (if found_build then ''step: '' @ step_name else build_ev);
          found_test = (\<not> has_test \<and> any_in TEST_CHECK_PATTERNS step_lower);
          has_test1 = (has_test \<or> found_test);
          test_ev1 = (if found_test then ''step: '' @ step_name else test_ev)
      in if has_build1 \<and> has_test1 then (has_build1, has_test1, build_ev1, test_ev1)
         else steps_loop rest (has_build1, has_test1, build_ev1, test_ev1))"

definition check_steps_for_build_test :: "remote \<Rightarrow> int \<Rightarrow> bool \<times> bool \<times> string \<times> string" where
  "check_steps_for_build_test rem job_id =
     steps_loop (get_job_steps rem job_id) (False, False, [], [])"

text \<open>The local variables of \<open>check_post_merge_ci_status\<close>.\<close>

record ci_locals =
  l_failed_checks :: "string list"
  l_failed_check_urls :: "string list"
  l_check_names :: "string list"
  l_job_ids :: "int list"
  l_has_pending :: bool
  l_has_checks :: bool
  l_has_build_check :: bool
  l_has_test_check :: bool
  l_build_evidence :: string
  l_test_evidence :: string

definition initial_locals :: ci_locals where
  "initial_locals =
     \<lparr>l_failed_checks = [], l_failed_check_urls = [], l_check_names = [], l_job_ids = [],
      l_has_pending = False, l_has_checks = False, l_has_build_check = False,
      l_has_test_check = False, l_build_evidence = [], l_test_evidence = []\<rparr>"

definition failing_conclusions :: "string list" where
  "failing_conclusions = [''failure'', ''cancelled'', ''timed_out'', ''action_required'']"

text \<open>The body of the loop over the lines, for a line that is a JSON object.\<close>

definition record_check :: "check_run \<Rightarrow> ci_locals \<Rightarrow> ci_locals" where
  "record_check chk v =
     (let check_name = get_or (cr_name chk) ''unknown check'';
          v1 = v\<lparr>l_has_checks := True, l_check_names := l_check_names v @ [check_name]\<rparr>;
          check_name_lower = lower check_name;
          v2 = (case cr_id chk of
                  Some check_id \<Rightarrow>
                    if check_id \<noteq> 0 then v1\<lparr>l_job_ids := l_job_ids v1 @ [check_id]\<rparr> else v1
                | None \<Rightarrow> v1);
          v3 = (if \<not> l_has_build_check v2 \<and> any_in BUILD_CHECK_PATTERNS check_name_lower
                then v2\<lparr>l_has_build_check := True, l_build_evidence := ''job: '' @ check_name\<rparr>
                else v2);
          v4 = (if \<not> l_has_test_check v3 \<and> any_in TEST_CHECK_PATTERNS check_name_lower
                then v3\<lparr>l_has_test_check := True, l_test_evidence := ''job: '' @ check_name\<rparr>
                else v3)
      in if cr_status chk \<noteq> Some ''completed'' then v4\<lparr>l_has_pending := True\<rparr>
         else if get_or (cr_conclusion chk) [] \<in> set failing_conclusions
         then v4\<lparr>l_failed_checks := l_failed_checks v4 @ [check_name],
                 l_failed_check_urls := l_failed_check_urls v4 @ [get_or (cr_html_url chk) []]\<rparr>
         else v4)"

fun parse_check_runs :: "check_line list \<Rightarrow> ci_locals \<Rightarrow> ci_locals" where
  "parse_check_runs [] v = v"
| "parse_check_runs (Blank # rest) v = parse_check_runs rest v"
| "parse_check_runs (Invalid_json # rest) v = parse_check_runs rest v"
| "parse_check_runs (Check chk # rest) v = parse_check_runs rest (record_check chk v)"

text \<open>The loop over \<open>job_ids[:5]\<close> that looks at the step names.\<close>

fun jobs_loop :: "remote \<Rightarrow> int list \<Rightarrow> ci_locals \<Rightarrow> ci_locals" where
  "jobs_loop rem [] v = v"
| "jobs_loop rem (job_id # rest) v =
     (if l_has_build_check v \<and> l_has_test_check v then v
      else
        (case check_steps_for_build_test rem job_id of
           (step_build, step_test, step_build_ev, step_test_ev) \<Rightarrow>
             (let v1 = (if \<not> l_has_build_check v \<and> step_build
                        then v\<lparr>l_has_build_check := True, l_build_evidence := step_build_ev\<rparr>
                        else v);
                  v2 = (if \<not> l_has_test_check v1 \<and> step_test
                        then v1\<lparr>l_has_test_check := True, l_test_evidence := step_test_ev\<rparr>
                        else v1)
              in jobs_loop rem rest v2)))"

definition resolve_status :: "ci_locals \<Rightarrow> CICheckResult" where
  "resolve_status v =
     (if l_has_pending v then
        \<lparr>status = ''pending'', failed_checks = [], failed_check_urls = [],
         check_names = l_check_names v,
         has_build_check = l_has_build_check v, has_test_check = l_has_test_check v,
         build_evidence = l_build_evidence v, test_evidence = l_test_evidence v\<rparr>
      else if l_failed_checks v \<noteq> [] then
        \<lparr>status = ''failure'', failed_checks = l_failed_checks v,
         failed_check_urls = l_failed_check_urls v, check_names = l_check_names v,
         has_build_check = l_has_build_check v, has_test_check = l_has_test_check v,
         build_evidence = l_build_evidence v, test_evidence = l_test_evidence v\<rparr>
      else
        \<lparr>status = ''success'', failed_checks = [], failed_check_urls = [],
         check_names = l_check_names v,
         has_build_check = l_has_build_check v, has_test_check = l_has_test_check v,
         build_evidence = l_build_evidence v, test_evidence = l_test_evidence v\<rparr>)"

definition check_post_merge_ci_status :: "remote \<Rightarrow> CICheckResult" where
  "check_post_merge_ci_status rem =
     (case pr_view rem of
        (False, pr_data) \<Rightarrow> new_CICheckResult ''unknown''
      | (True, Pr_invalid_json) \<Rightarrow> new_CICheckResult ''unknown''
      | (True, Pr_data None) \<Rightarrow> new_CICheckResult ''unknown''
      | (True, Pr_data (Some commit_sha)) \<Rightarrow>
          (case check_runs rem commit_sha of
             (False, lines) \<Rightarrow> new_CICheckResult ''unknown''
           | (True, lines) \<Rightarrow>
               (let v = parse_check_runs lines initial_locals in
                if \<not> l_has_checks v then new_CICheckResult ''no_ci''
                else
                  (let v1 = (if (\<not> l_has_build_check v \<or> \<not> l_has_test_check v) \<and> l_job_ids v \<noteq> []
                             then jobs_loop rem (take 5 (l_job_ids v)) v
                             else v)
                   in resolve_status v1))))"

text \<open>A remote with a merge commit and the given lines of check-runs, and no steps.\<close>

definition remote_with :: "check_line list \<Rightarrow> remote" where
  "remote_with lines =
     \<lparr>pr_view = (True, Pr_data (Some ''abc123'')),
      check_runs = (\<lambda>commit_sha. (True, lines)),
      get_job_steps = (\<lambda>job_id. [])\<rparr>"

text \<open>
  A check-run that is still pending, and one that is completed with a failing conclusion;
  two sample check-runs.
\<close>

definition is_pending :: "check_run \<Rightarrow> bool" where
  "is_pending chk = (cr_status chk \<noteq> Some ''completed'')"

definition is_failed :: "check_run \<Rightarrow> bool" where
  "is_failed chk =
     (cr_status chk = Some ''completed'' \<and> get_or (cr_conclusion chk) [] \<in> set failing_conclusions)"

definition failed_check :: check_run where
  "failed_check =
     \<lparr>cr_id = Some 1, cr_name = Some ''test'', cr_status = Some ''completed'',
      cr_conclusion = Some ''failure'', cr_html_url = Some ''https://example.com/failed''\<rparr>"

definition running_check :: check_run where
  "running_check =
     \<lparr>cr_id = Some 2, cr_name = Some ''lint'', cr_status = Some ''in_progress'',
      cr_conclusion = None, cr_html_url = Some ''https://example.com/pending''\<rparr>"

section \<open>The retry loop\<close>

text \<open>
  Attempt \<open>k\<close> is the \<open>k\<close>-th process spawned. The loop over \<open>[a..<n]\<close> goes on
  exactly while the attempts say \<open>Continue\<close> and the delays of the retries can be slept,
  and leaves the result of the last attempt made, or the exception of a delay.
\<close>

lemma get_delay_sleep:
  "(case get_delay s k u of Inl e \<Rightarrow> Some e | Inr d \<Rightarrow> if d < 0 then Some ValueError else None) =
     strategy_delay_error s k"
  by (cases s) (auto simp: pow2_float_def Let_def)

lemma next_delay_raises:
  assumes "next_delay cfg env k tr = (Inl e, t)"
  shows "compute_delay_error cfg k = Some e \<and> retry_delay_error cfg k = Some e \<and> t = tr"
proof (cases "retry_strategy cfg")
  case None
  with assms show ?thesis by (simp add: next_delay_def)
next
  case (Some s)
  with assms show ?thesis
    by (cases s)
       (auto simp: next_delay_def compute_delay_error_def retry_delay_error_def pow2_float_def
             Let_def split: if_splits)
qed

lemma next_delay_returns:
  assumes "next_delay cfg env k tr = (Inr d, t)"
  shows "compute_delay_error cfg k = None \<and> calls t = calls tr \<and>
         retry_delay_error cfg k = (if d < 0 then Some ValueError else None)"
proof (cases "retry_strategy cfg")
  case None
  with assms show ?thesis
    by (auto simp: next_delay_def compute_delay_error_def retry_delay_error_def)
next
  case (Some s)
  with assms show ?thesis
    by (cases s)
       (auto simp: next_delay_def compute_delay_error_def retry_delay_error_def pow2_float_def
             Let_def split: if_splits)
qed

lemma before_attempt_raises:
  assumes "before_attempt cfg env a tr = Inl e"
  shows "0 < a \<and> retry_delay_error cfg (a - 1) = Some e"
proof -
  from assms have a: "0 < a" by (auto simp: before_attempt_def split: if_splits)
  obtain x t where n: "next_delay cfg env (a - 1) tr = (x, t)" by (cases "next_delay cfg env (a - 1) tr")
  show ?thesis
  proof (cases x)
    case (Inl e')
    with assms a n next_delay_raises [of cfg env "a - 1" tr e' t] show ?thesis
      by (simp add: before_attempt_def)
  next
    case (Inr d)
    with assms a n next_delay_returns [of cfg env "a - 1" tr d t] show ?thesis
      by (auto simp: before_attempt_def sleep_def split: if_splits)
  qed
qed

lemma before_attempt_returns:
  assumes "before_attempt cfg env a tr = Inr tr1"
  shows "calls tr1 = calls tr \<and> (0 < a \<longrightarrow> retry_delay_error cfg (a - 1) = None)"
proof (cases "0 < a")
  case False
  with assms show ?thesis by (simp add: before_attempt_def)
next
  case True
  obtain x t where n: "next_delay cfg env (a - 1) tr = (x, t)" by (cases "next_delay cfg env (a - 1) tr")
  show ?thesis
  proof (cases x)
    case (Inl e')
    with assms True n show ?thesis by (simp add: before_attempt_def)
  next
    case (Inr d)
    with assms True n next_delay_returns [of cfg env "a - 1" tr d t] show ?thesis
      by (auto simp: before_attempt_def sleep_def split: if_splits)
  qed
qed

lemma peek_continues:
  assumes "attempt_result cfg det cl cs a outcome = (r, fl, True)"
  shows "fl = Continue \<and> int a < retries cfg"
  using assms
  by (cases outcome) (auto simp: Let_def split: sum.splits if_splits)

lemma run_attempt_step:
  assumes "run_attempt cfg det env cl cs a tr = ((r, fl), tr')" and "calls tr = a"
  shows "calls tr' = Suc a \<and> r = attempt_value cfg det env cl cs a \<and>
         fl = attempt_flow cfg det env cl cs a"
proof -
  obtain r0 f0 p0 where ar: "attempt_result cfg det cl cs a (run env a) = (r0, f0, p0)"
    by (cases "attempt_result cfg det cl cs a (run env a)") auto
  define tr2 where "tr2 = tr\<lparr>calls := calls tr + 1\<rparr>"
  have c2: "calls tr2 = Suc a" using assms(2) by (simp add: tr2_def)
  show ?thesis
  proof (cases p0)
    case False
    with ar assms show ?thesis
      by (auto simp: run_attempt_def Let_def attempt_value_def attempt_flow_def
          split: option.splits)
  next
    case True
    with ar have pc: "f0 = Continue" "int a < retries cfg"
      using peek_continues [of cfg det cl cs a "run env a" r0 f0] by simp_all
    obtain x t where n: "next_delay cfg env a tr2 = (x, t)" by (cases "next_delay cfg env a tr2")
    show ?thesis
    proof (cases x)
      case (Inl e)
      with n next_delay_raises [of cfg env a tr2 e t]
      have ce: "compute_delay_error cfg a = Some e" and t: "t = tr2" by simp_all
      from assms ar True n Inl have "r = exception_result cs (str_exn e)"
        "fl = retry_if_configured cfg a" "tr' = t"
        by (simp_all add: run_attempt_def Let_def tr2_def)
      with ce t c2 pc ar True show ?thesis
        by (simp add: attempt_value_def attempt_flow_def retry_if_configured_def)
    next
      case (Inr d)
      with n next_delay_returns [of cfg env a tr2 d t]
      have ce: "compute_delay_error cfg a = None" and t: "calls t = calls tr2" by simp_all
      from assms ar True n Inr have "r = r0" "fl = f0" "tr' = t"
        by (simp_all add: run_attempt_def Let_def tr2_def)
      with ce t c2 ar show ?thesis
        by (simp add: attempt_value_def attempt_flow_def)
    qed
  qed
qed

lemma attempts_upt:
  assumes "attempts cfg det env cl cs [a..<n] lst tr = (res, tr')" and "calls tr = a"
  shows "a \<le> calls tr' \<and> calls tr' \<le> max a n \<and>
         (\<forall>k. a \<le> k \<and> Suc k < calls tr' \<longrightarrow> attempt_flow cfg det env cl cs k = Continue) \<and>
         (\<forall>k. a \<le> k \<and> Suc k < calls tr' \<longrightarrow> retry_delay_error cfg k = None) \<and>
         (case res of
            Inr v \<Rightarrow>
              (a < n \<longrightarrow> a < calls tr') \<and>
              (a < n \<and> calls tr' < n \<longrightarrow> attempt_flow cfg det env cl cs (calls tr' - 1) = Break) \<and>
              v = (if a < n then Some (attempt_value cfg det env cl cs (calls tr' - 1)) else lst)
          | Inl e \<Rightarrow>
              calls tr' < n \<and> 0 < calls tr' \<and> retry_delay_error cfg (calls tr' - 1) = Some e \<and>
              (a < calls tr' \<longrightarrow> attempt_flow cfg det env cl cs (calls tr' - 1) = Continue))"
  using assms
proof (induction "n - a" arbitrary: a lst tr)
  case 0
  then show ?case by auto
next
  case (Suc d)
  then have lt: "a < n" by simp
  show ?case
  proof (cases "before_attempt cfg env a tr")
    case (Inl e)
    with Suc.prems(1) lt have "res = Inl e" "tr' = tr"
      by (simp_all add: upt_conv_Cons)
    with before_attempt_raises [OF Inl] Suc.prems(2) lt show ?thesis by auto
  next
    case (Inr tr0)
    note b = before_attempt_returns [OF Inr]
    have c0: "calls tr0 = a" using b Suc.prems(2) by simp
    obtain r fl tr1 where ra: "run_attempt cfg det env cl cs a tr0 = ((r, fl), tr1)"
      by (metis prod.exhaust)
    note st = run_attempt_step [OF ra c0]
    show ?thesis
    proof (cases fl)
      case Break
      with ra Inr Suc.prems(1) lt have "res = Inr (Some r)" "tr' = tr1"
        by (simp_all add: upt_conv_Cons)
      with st Break lt show ?thesis by auto
    next
      case Continue
      with ra Inr Suc.prems(1) lt
      have rec: "attempts cfg det env cl cs [Suc a..<n] (Some r) tr1 = (res, tr')"
        by (simp add: upt_conv_Cons)
      have d: "d = n - Suc a" using Suc.hyps(2) by simp
      have c: "calls tr1 = Suc a" using st by simp
      note ih = Suc.hyps(1) [OF d rec c]
      have flow: "\<forall>k. a \<le> k \<and> Suc k < calls tr' \<longrightarrow> attempt_flow cfg det env cl cs k = Continue"
      proof (intro allI impI)
        fix k assume k: "a \<le> k \<and> Suc k < calls tr'"
        show "attempt_flow cfg det env cl cs k = Continue"
        proof (cases "k = a")
          case True then show ?thesis using st Continue by simp
        next
          case False then show ?thesis using k ih by auto
        qed
      qed
      have slept: "\<forall>k. a \<le> k \<and> Suc k < calls tr' \<longrightarrow> retry_delay_error cfg k = None"
      proof (intro allI impI)
        fix k assume k: "a \<le> k \<and> Suc k < calls tr'"
        show "retry_delay_error cfg k = None"
        proof (cases "k = a")
          case False then show ?thesis using k ih by auto
        next
          case True
          with k have s: "Suc a < calls tr'" by simp
          then have n: "Suc a < n" using ih by auto
          show ?thesis
          proof (cases "before_attempt cfg env (Suc a) tr1")
            case (Inl e)
            with rec n have "tr' = tr1" by (simp add: upt_conv_Cons)
            with c s show ?thesis by simp
          next
            case (Inr t)
            from before_attempt_returns [OF Inr] True show ?thesis by simp
          qed
        qed
      qed
      show ?thesis
      proof (cases res)
        case (Inl e)
        with ih have i: "calls tr' < n" "0 < calls tr'"
          "retry_delay_error cfg (calls tr' - 1) = Some e"
          "Suc a < calls tr' \<longrightarrow> attempt_flow cfg det env cl cs (calls tr' - 1) = Continue"
          "Suc a \<le> calls tr'"
          by auto
        have "attempt_flow cfg det env cl cs (calls tr' - 1) = Continue"
        proof (cases "Suc a < calls tr'")
          case True with i show ?thesis by simp
        next
          case False
          with i have "calls tr' - 1 = a" by simp
          with st Continue show ?thesis by simp
        qed
        with i Inl flow slept show ?thesis by auto
      next
        case (Inr v)
        show ?thesis
        proof (cases "Suc a < n")
          case True
          with ih Inr flow slept lt show ?thesis by auto
        next
          case False
          with lt have n: "n = Suc a" by simp
          with ih Inr have ct: "calls tr' = Suc a" and rs: "v = Some r" by auto
          have "calls tr' - 1 = a" using ct by simp
          with ct rs n st Inr show ?thesis by auto
        qed
      qed
    qed
  qed
qed

section \<open>Sample inputs\<close>

lemma classify_timeout_text:
  "detect_error_patterns (new_ErrorPatternDetector t) ''timeout'' rc cmnd =
     Inr \<lparr>error_type = ''network-error'', is_error = True,
          message = ''Network connectivity issue'',
          suggestion = ''Check network connectivity and endpoint configuration'',
          recoverable = True\<rparr>"
  by (simp add: detect_error_patterns_def new_ErrorPatternDetector_def get_default_patterns_def
      matches_pattern_set_def re_search_def lower_def lower_char_def pattern_error_def)

lemma default_client:
  "new_SubprocessClient None =
     \<lparr>config = default_CommandConfig, error_detector = new_ErrorPatternDetector 30\<rparr>"
  by (simp add: new_SubprocessClient_def get_or_def default_CommandConfig_def)

lemma split_ls: "split ''ls -l'' = [''ls'', ''-l'']"
  by (simp add: split_def is_space_def)

lemma run_always: "run (always outcome) k = outcome"
  by (simp add: always_def stub_def)

lemma classify_ok_text:
  "detect_error_patterns (new_ErrorPatternDetector t) ''ok'' 0 cmnd =
     Inr \<lparr>error_type = ''success'', is_error = False,
          message = ''Command completed successfully'', suggestion = [], recoverable = True\<rparr>"
  by (simp add: detect_error_patterns_def new_ErrorPatternDetector_def get_default_patterns_def
      matches_pattern_set_def re_search_def lower_def lower_char_def pattern_error_def)



section \<open>Facts about one attempt\<close>

lemma attempt_success:
  assumes "success (fst (attempt_result cfg det cl cs a outcome))"
  shows "return_code (fst (attempt_result cfg det cl cs a outcome)) = 0 \<and>
         (check_return_code cfg \<longrightarrow>
            map_option is_error (error_info (fst (attempt_result cfg det cl cs a outcome))) = Some False)"
  using assms
  by (cases outcome)
     (auto simp: Let_def exception_result_def timeout_result_def not_found_result_def
           split: sum.splits if_splits)




lemma attempt_value_cases:
  "attempt_value cfg det env cl cs k = fst (attempt_result cfg det cl cs k (run env k)) \<or>
   (\<exists>e. attempt_value cfg det env cl cs k = exception_result cs e)"
  by (auto simp: attempt_value_def split: prod.splits option.splits)

lemma attempt_value_no_peek:
  "snd (snd (attempt_result cfg det cl cs k (run env k))) = False \<Longrightarrow>
   attempt_value cfg det env cl cs k = fst (attempt_result cfg det cl cs k (run env k))"
  by (auto simp: attempt_value_def split: prod.splits option.splits)

lemma execute_command_upt:
  assumes "execute_command client c ov env = (res, tr)"
    and "cfg = get_or ov (config client)" and "det = error_detector client"
    and "cl = cmd_list_of c" and "cs = join '' '' cl" and "n = nat (retries cfg + 1)"
  shows "calls tr \<le> n \<and>
         (\<forall>k. Suc k < calls tr \<longrightarrow> attempt_flow cfg det env cl cs k = Continue) \<and>
         (\<forall>k. Suc k < calls tr \<longrightarrow> retry_delay_error cfg k = None) \<and>
         (case res of
            Inr r \<Rightarrow>
              (0 < n \<longrightarrow> 0 < calls tr) \<and>
              (0 < n \<and> calls tr < n \<longrightarrow> attempt_flow cfg det env cl cs (calls tr - 1) = Break) \<and>
              r = (if 0 < n then attempt_value cfg det env cl cs (calls tr - 1)
                   else no_execution_result cs)
          | Inl e \<Rightarrow>
              calls tr < n \<and> 0 < calls tr \<and> retry_delay_error cfg (calls tr - 1) = Some e \<and>
              attempt_flow cfg det env cl cs (calls tr - 1) = Continue)"
proof -
  obtain x where a: "attempts cfg det env cl cs [0..<n] None no_trace = (x, tr)"
    and r: "res = (case x of Inl e \<Rightarrow> Inl e | Inr v \<Rightarrow> Inr (get_or v (no_execution_result cs)))"
    using assms by (auto simp: execute_command_def Let_def split: prod.splits sum.splits)
  have "calls no_trace = 0" by (simp add: no_trace_def)
  from attempts_upt [OF a this] r show ?thesis
    by (cases x) (auto simp: get_or_def)
qed

section \<open>Delays without jitter\<close>

text \<open>
  C8. With the jitter parameter equal to 0 (or negative), \<open>get_delay a\<close> and
  \<open>_calculate_delay a\<close> are \<open>min (initial_delay * 2 ^ a) max_delay\<close> for the attempt
  numbers \<open>a < 1024\<close>. From \<open>a = 1024\<close> on, where the minimum is still defined (and is
  \<open>max_delay\<close> for the default delays), the conversion of \<open>2 ** a\<close> to a \<open>float\<close> raises
  \<open>OverflowError\<close> before the cap is applied, so the functions return nothing.
\<close>

theorem get_delay_no_jitter:
  assumes "j \<le> 0" and "gh_jitter cfg \<le> 0"
  shows "(a < 1024 \<longrightarrow>
            get_delay (ExponentialBackoffStrategy i m j ps) a u = Inr (min (i * 2 ^ a) m) \<and>
            calculate_delay cfg a u =
              Inr (min (gh_initial_delay cfg * 2 ^ a) (gh_max_delay cfg))) \<and>
         (1024 \<le> a \<longrightarrow>
            get_delay (ExponentialBackoffStrategy i m j ps) a u = Inl OverflowError \<and>
            calculate_delay cfg a u = Inl OverflowError)"
  using assms by (simp add: calculate_delay_def pow2_float_def)

theorem get_delay_no_jitter_witness:
  "get_delay (ExponentialBackoffStrategy 2 50 0 []) 5 0 = Inr 50 \<and>
   calculate_delay (default_GHClientConfig\<lparr>gh_jitter := 0\<rparr>) 5 0 = Inr 64 \<and>
   get_delay (ExponentialBackoffStrategy 2 50 0 []) 2000 0 = Inl OverflowError \<and>
   calculate_delay (default_GHClientConfig\<lparr>gh_jitter := 0\<rparr>) 2000 0 = Inl OverflowError"
  using get_delay_no_jitter [where j = 0 and cfg = "default_GHClientConfig\<lparr>gh_jitter := 0\<rparr>"
      and a = 5 and i = 2 and m = 50 and ps = "[]" and u = 0]
    get_delay_no_jitter [where j = 0 and cfg = "default_GHClientConfig\<lparr>gh_jitter := 0\<rparr>"
      and a = 2000 and i = 2 and m = 50 and ps = "[]" and u = 0]
  by (simp add: default_GHClientConfig_def)

text \<open>
  The first attempt number at which the functions diverge from the minimum: the minimum
  is the \<open>max_delay\<close> of 300 seconds, and both functions raise.
\<close>

theorem get_delay_overflow_at_1024:
  "get_delay (ExponentialBackoffStrategy 2 300 0 []) 1024 0 = Inl OverflowError \<and>
   calculate_delay (default_GHClientConfig\<lparr>gh_jitter := 0\<rparr>) 1024 0 = Inl OverflowError \<and>
   min ((2 :: real) * 2 ^ 1024) 300 = 300"
  by (simp add: calculate_delay_def pow2_float_def)

section \<open>Results of \<open>execute_command\<close>\<close>

text \<open>
  C1, as amended. For every result that \<open>execute_command\<close> returns, under any
  configuration: \<open>success\<close> implies \<open>return_code = 0\<close>, and, when \<open>check_return_code\<close> is
  set, that \<open>error_info.is_error\<close> is false. (With \<open>check_return_code = False\<close> the error
  classification is not consulted.)
\<close>

theorem success_implies_zero_return_code:
  assumes "execute_command client c ov env = (Inr r, tr)" and "success r"
  shows "return_code r = 0 \<and>
         (check_return_code (get_or ov (config client)) \<longrightarrow>
            map_option is_error (error_info r) = Some False)"
proof -
  define cfg where "cfg = get_or ov (config client)"
  define det where "det = error_detector client"
  define cl where "cl = cmd_list_of c"
  define cs where "cs = join '' '' cl"
  note u = execute_command_upt [OF assms(1) cfg_def det_def cl_def cs_def refl]
  have "0 < nat (retries cfg + 1)"
    using u assms(2) by (auto simp: no_execution_result_def split: if_splits)
  with u have r: "r = attempt_value cfg det env cl cs (calls tr - 1)" by simp
  from attempt_value_cases [of cfg det env cl cs "calls tr - 1"] r assms(2)
  have "r = fst (attempt_result cfg det cl cs (calls tr - 1) (run env (calls tr - 1)))"
    by (auto simp: exception_result_def)
  with assms(2) attempt_success [of cfg det cl cs "calls tr - 1" "run env (calls tr - 1)"]
  show ?thesis by (simp add: cfg_def)
qed

lemma run_ok:
  "execute_command (new_SubprocessClient None) (Str ''ls -l'') None (always (Completed ''ok'' [] 0)) =
     (Inr \<lparr>success = True, output = ''ok'', error_output = [], return_code = 0,
           command = ''ls -l'',
           error_info = Some \<lparr>error_type = ''success'', is_error = False,
             message = ''Command completed successfully'', suggestion = [],
             recoverable = True\<rparr>\<rparr>,
      \<lparr>calls = 1, sleeps = [], draws = 0\<rparr>)"
  by (simp add: execute_command_def default_client split_ls get_or_def default_CommandConfig_def
      before_attempt_def run_attempt_def no_trace_def run_always classify_ok_text)

theorem success_implies_zero_return_code_witness:
  "execute_command (new_SubprocessClient None) (Str ''ls -l'') None (always (Completed ''ok'' [] 0)) =
     (Inr \<lparr>success = True, output = ''ok'', error_output = [], return_code = 0,
           command = ''ls -l'',
           error_info = Some \<lparr>error_type = ''success'', is_error = False,
             message = ''Command completed successfully'', suggestion = [],
             recoverable = True\<rparr>\<rparr>,
      \<lparr>calls = 1, sleeps = [], draws = 0\<rparr>) \<and>
   check_return_code (get_or None (config (new_SubprocessClient None)))"
  using success_implies_zero_return_code [OF run_ok] run_ok
  by (simp add: default_client get_or_def default_CommandConfig_def)

text \<open>
  The claim as stated fails: with \<open>check_return_code = False\<close>, a process that exits
  with 0 and prints \<open>timeout\<close> gives \<open>success = True\<close> together with an
  \<open>error_info\<close> whose \<open>is_error\<close> is true.
\<close>

theorem success_with_error_counterexample:
  "execute_command (new_SubprocessClient None) (Str ''ls -l'')
     (Some (default_CommandConfig\<lparr>check_return_code := False\<rparr>))
     (always (Completed ''timeout'' [] 0)) =
     (Inr \<lparr>success = True, output = ''timeout'', error_output = [], return_code = 0,
           command = ''ls -l'',
           error_info = Some \<lparr>error_type = ''network-error'', is_error = True,
             message = ''Network connectivity issue'',
             suggestion = ''Check network connectivity and endpoint configuration'',
             recoverable = True\<rparr>\<rparr>,
      \<lparr>calls = 1, sleeps = [], draws = 0\<rparr>)"
  by (simp add: execute_command_def default_client split_ls get_or_def default_CommandConfig_def
      before_attempt_def run_attempt_def no_trace_def run_always classify_timeout_text)









text \<open>
  C5. When spawning the command raises command-not-found, \<open>execute_command\<close> returns a
  result with \<open>return_code = 127\<close>, error type \<open>command-not-found\<close> and
  \<open>recoverable = False\<close>, and no further process is spawned, whatever \<open>retries\<close> is:
  raised by the first process, it leaves the number of processes at 1.
\<close>

theorem command_not_found_not_retried:
  assumes "execute_command client c ov env = (res, tr)"
    and "run env k = FileNotFoundError"
    and "k < calls tr \<or> (k = 0 \<and> 0 \<le> retries (get_or ov (config client)))"
  shows "(\<exists>r. res = Inr r \<and> return_code r = 127 \<and>
            map_option error_type (error_info r) = Some ''command-not-found'' \<and>
            map_option recoverable (error_info r) = Some False \<and>
            \<not> success r) \<and> calls tr = Suc k"
proof -
  define cfg where "cfg = get_or ov (config client)"
  define n where "n = nat (retries cfg + 1)"
  define det where "det = error_detector client"
  define cl where "cl = cmd_list_of c"
  define cs where "cs = join '' '' cl"
  note u = execute_command_upt [OF assms(1) cfg_def det_def cl_def cs_def n_def]
  have k: "k < calls tr"
    using assms(3) u by (cases res) (auto simp: n_def cfg_def)
  have b: "attempt_flow cfg det env cl cs k = Break"
    using assms(2) by (simp add: attempt_flow_def)
  have "\<not> Suc k < calls tr"
    using u b by auto
  with k have ct: "calls tr = Suc k" by simp
  show ?thesis
  proof (cases res)
    case (Inl e)
    with u ct b show ?thesis by simp
  next
    case (Inr r)
    with u ct have "r = attempt_value cfg det env cl cs k" by (auto split: if_splits)
    then have "r = not_found_result cl cs"
      using assms(2) by (simp add: attempt_value_def split: option.splits)
    with ct Inr show ?thesis
      by (simp add: not_found_result_def Let_def)
  qed
qed

theorem command_not_found_not_retried_witness:
  "execute_command (new_SubprocessClient None) (Str ''ls -l'')
     (Some (default_CommandConfig\<lparr>retries := 5\<rparr>)) (always FileNotFoundError) =
     (Inr \<lparr>success = False, output = ''Command not found: ls'', error_output = [],
           return_code = 127, command = ''ls -l'',
           error_info = Some \<lparr>error_type = ''command-not-found'', is_error = True,
             message = ''Command not found: ls'',
             suggestion = ''Ensure the command is installed and in PATH'',
             recoverable = False\<rparr>\<rparr>,
      \<lparr>calls = 1, sleeps = [], draws = 0\<rparr>)"
proof -
  let ?E = "execute_command (new_SubprocessClient None) (Str ''ls -l'')
     (Some (default_CommandConfig\<lparr>retries := 5\<rparr>)) (always FileNotFoundError)"
  have "calls (snd ?E) = Suc 0"
    using command_not_found_not_retried [where client = "new_SubprocessClient None"
      and c = "Str ''ls -l''" and ov = "Some (default_CommandConfig\<lparr>retries := 5\<rparr>)"
      and env = "always FileNotFoundError" and k = 0, OF prod.collapse [symmetric]]
    by (simp add: run_always get_or_def default_CommandConfig_def)
  moreover have "?E =
     (Inr \<lparr>success = False, output = ''Command not found: ls'', error_output = [],
           return_code = 127, command = ''ls -l'',
           error_info = Some \<lparr>error_type = ''command-not-found'', is_error = True,
             message = ''Command not found: ls'',
             suggestion = ''Ensure the command is installed and in PATH'',
             recoverable = False\<rparr>\<rparr>,
      \<lparr>calls = 1, sleeps = [], draws = 0\<rparr>)"
    by (simp add: execute_command_def default_client split_ls get_or_def default_CommandConfig_def
      before_attempt_def run_attempt_def no_trace_def run_always not_found_result_def
      upt_conv_Cons Let_def)
  ultimately show ?thesis by simp
qed





section \<open>Patterns and the return code\<close>

lemma find_append_patterns:
  "find P (xs @ ys) = (case find P xs of Some x \<Rightarrow> Some x | None \<Rightarrow> find P ys)"
  by (induction xs) auto

lemma detect_first_match:
  assumes "find (matches_pattern_set out) (custom_patterns det @ pattern_sets det) = Some ps"
  shows "detect_error_patterns det out rc cmnd =
           Inr \<lparr>error_type = ps_error_type ps, is_error = True, message = ps_message ps,
                suggestion = ps_suggestion ps, recoverable = ps_recoverable ps\<rparr>"
  using assms
  by (simp add: detect_error_patterns_def find_append_patterns pattern_error_def
      split: option.splits)

lemma find_timeout_text:
  "find (matches_pattern_set ''timeout'')
     (custom_patterns (new_ErrorPatternDetector t) @ pattern_sets (new_ErrorPatternDetector t)) =
   Some (get_default_patterns ! 2)"
  by (simp add: new_ErrorPatternDetector_def get_default_patterns_def
      matches_pattern_set_def re_search_def lower_def lower_char_def)

lemma find_connection_refused_text:
  "find (matches_pattern_set ''connection refused'')
     (custom_patterns (new_ErrorPatternDetector t) @ pattern_sets (new_ErrorPatternDetector t)) =
   Some (get_default_patterns ! 2)"
  by (simp add: new_ErrorPatternDetector_def get_default_patterns_def
      matches_pattern_set_def re_search_def lower_def lower_char_def)

lemma network_pattern_set:
  "ps_error_type (get_default_patterns ! 2) = ''network-error'' \<and>
   ps_message (get_default_patterns ! 2) = ''Network connectivity issue'' \<and>
   ps_suggestion (get_default_patterns ! 2) =
     ''Check network connectivity and endpoint configuration'' \<and>
   ps_recoverable (get_default_patterns ! 2) = True"
  by (simp add: get_default_patterns_def)

text \<open>
  C10. A return code of 0 does not decide the classification: the first pattern set,
  custom ones first, that matches the output gives the classification, which is an error
  with the type, message, suggestion and recoverability of that set, whatever the return
  code is; so the default classifier reports a network error for the output \<open>timeout\<close>
  of a process that exits with 0. When \<open>check_return_code\<close> is set, the attempt of a
  process that exits with 0 and prints a text that some pattern set matches has
  \<open>success = False\<close>, and when every process does so, a result that \<open>execute_command\<close>
  returns has \<open>success = False\<close>.
\<close>

theorem pattern_match_overrides_return_code:
  "(find (matches_pattern_set out) (custom_patterns det @ pattern_sets det) = Some ps \<longrightarrow>
      detect_error_patterns det out rc cmnd =
        Inr \<lparr>error_type = ps_error_type ps, is_error = True, message = ps_message ps,
             suggestion = ps_suggestion ps, recoverable = ps_recoverable ps\<rparr>) \<and>
   detect_error_patterns (new_ErrorPatternDetector t) ''timeout'' 0 cmnd =
     Inr \<lparr>error_type = ''network-error'', is_error = True,
          message = ''Network connectivity issue'',
          suggestion = ''Check network connectivity and endpoint configuration'',
          recoverable = True\<rparr> \<and>
   (check_return_code cfg \<and>
    list_ex (matches_pattern_set (if combine_output cfg then so @ se else so))
      (custom_patterns det @ pattern_sets det) \<longrightarrow>
    \<not> success (fst (attempt_result cfg det cl cs a (Completed so se 0)))) \<and>
   (execute_command client c ov env = (Inr r, tr) \<and>
    check_return_code (get_or ov (config client)) \<and>
    (\<forall>k. \<exists>so se. run env k = Completed so se 0 \<and>
       list_ex (matches_pattern_set (if combine_output (get_or ov (config client)) then so @ se else so))
         (custom_patterns (error_detector client) @ pattern_sets (error_detector client))) \<longrightarrow>
    \<not> success r)"
proof -
  have att: "\<not> success (fst (attempt_result cfg det cl cs a (Completed so se 0)))"
    if c: "check_return_code cfg"
      and m: "list_ex (matches_pattern_set (if combine_output cfg then so @ se else so))
         (custom_patterns det @ pattern_sets det)" for cfg det cl cs a so se
  proof -
    define out where "out = (if combine_output cfg then so @ se else so)"
    from m obtain ps where
      "find (matches_pattern_set out) (custom_patterns det @ pattern_sets det) = Some ps"
      unfolding out_def [symmetric] by (metis not_Some_eq find_None_iff list_ex_iff)
    from detect_first_match [OF this] c show ?thesis
      by (simp add: out_def [symmetric] Let_def)
  qed
  have run: "\<not> success r"
    if a: "execute_command client c ov env = (Inr r, tr) \<and>
    check_return_code (get_or ov (config client)) \<and>
    (\<forall>k. \<exists>so se. run env k = Completed so se 0 \<and>
       list_ex (matches_pattern_set (if combine_output (get_or ov (config client)) then so @ se else so))
         (custom_patterns (error_detector client) @ pattern_sets (error_detector client)))"
  proof -
    define cfg where "cfg = get_or ov (config client)"
    define det where "det = error_detector client"
    define cl where "cl = cmd_list_of c"
    define cs where "cs = join '' '' cl"
    note u = execute_command_upt [OF conjunct1 [OF a] cfg_def det_def cl_def cs_def refl]
    have v: "\<not> success (attempt_value cfg det env cl cs k)" for k
    proof -
      from a obtain so se where o: "run env k = Completed so se 0"
        and m: "list_ex (matches_pattern_set (if combine_output cfg then so @ se else so))
           (custom_patterns det @ pattern_sets det)"
        unfolding cfg_def det_def by blast
      from a have "check_return_code cfg" by (simp add: cfg_def)
      from att [OF this m, of cl cs k] o attempt_value_cases [of cfg det env cl cs k]
      show ?thesis by (auto simp: exception_result_def)
    qed
    show ?thesis
      using u v by (simp add: no_execution_result_def split: if_splits)
  qed
  show ?thesis
    using detect_first_match att run classify_timeout_text by blast
qed

theorem pattern_match_overrides_return_code_witness:
  "detect_error_patterns (new_ErrorPatternDetector 30) ''connection refused'' 0 ''ls -l'' =
     Inr \<lparr>error_type = ''network-error'', is_error = True,
          message = ''Network connectivity issue'',
          suggestion = ''Check network connectivity and endpoint configuration'',
          recoverable = True\<rparr> \<and>
   execute_command (new_SubprocessClient None) (Str ''ls -l'') None
     (always (Completed ''timeout'' [] 0)) =
     (Inr \<lparr>success = False, output = ''timeout'', error_output = [], return_code = 0,
           command = ''ls -l'',
           error_info = Some \<lparr>error_type = ''network-error'', is_error = True,
             message = ''Network connectivity issue'',
             suggestion = ''Check network connectivity and endpoint configuration'',
             recoverable = True\<rparr>\<rparr>,
      \<lparr>calls = 1, sleeps = [], draws = 0\<rparr>)"
proof -
  let ?client = "new_SubprocessClient None"
  let ?env = "always (Completed ''timeout'' [] 0)"
  let ?r = "\<lparr>success = False, output = ''timeout'', error_output = [], return_code = 0,
           command = ''ls -l'',
           error_info = Some \<lparr>error_type = ''network-error'', is_error = True,
             message = ''Network connectivity issue'',
             suggestion = ''Check network connectivity and endpoint configuration'',
             recoverable = True\<rparr>\<rparr>"
  let ?tr = "\<lparr>calls = 1, sleeps = [], draws = 0\<rparr>"
  have e: "execute_command ?client (Str ''ls -l'') None ?env = (Inr ?r, ?tr)"
    by (simp add: execute_command_def default_client split_ls get_or_def default_CommandConfig_def
      before_attempt_def run_attempt_def no_trace_def run_always classify_timeout_text)
  note th = pattern_match_overrides_return_code [where det = "new_ErrorPatternDetector 30"
      and out = "''connection refused''" and ps = "get_default_patterns ! 2" and rc = 0
      and cmnd = "''ls -l''" and client = ?client and c = "Str ''ls -l''" and ov = None
      and env = ?env and r = ?r and tr = ?tr]
  from th find_connection_refused_text [of 30] network_pattern_set e
  show ?thesis by simp
qed

section \<open>Delays of the rate-limit retries\<close>





















section \<open>The CI status\<close>

lemma record_check_fields:
  "l_has_pending (record_check chk v) = (l_has_pending v \<or> is_pending chk)"
  "l_has_checks (record_check chk v)"
  "(l_failed_checks (record_check chk v) \<noteq> []) = (l_failed_checks v \<noteq> [] \<or> is_failed chk)"
  by (auto simp: record_check_def is_pending_def is_failed_def Let_def split: option.splits)

lemma parse_check_runs_fields:
  "l_has_pending (parse_check_runs lines v) =
     (l_has_pending v \<or> (\<exists>chk. Check chk \<in> set lines \<and> is_pending chk))"
  "l_has_checks (parse_check_runs lines v) = (l_has_checks v \<or> (\<exists>chk. Check chk \<in> set lines))"
  "(l_failed_checks (parse_check_runs lines v) \<noteq> []) =
     (l_failed_checks v \<noteq> [] \<or> (\<exists>chk. Check chk \<in> set lines \<and> is_failed chk))"
  by (induction lines v rule: parse_check_runs.induct) (auto simp: record_check_fields)

lemma jobs_loop_fields:
  "l_has_pending (jobs_loop rem ids v) = l_has_pending v"
  "l_failed_checks (jobs_loop rem ids v) = l_failed_checks v"
  "l_failed_check_urls (jobs_loop rem ids v) = l_failed_check_urls v"
  "l_check_names (jobs_loop rem ids v) = l_check_names v"
  by (induction rem ids v rule: jobs_loop.induct; simp add: Let_def split: prod.splits)+

lemma status_with_checks:
  assumes "pr_view rem = (True, Pr_data (Some commit_sha))"
    and "check_runs rem commit_sha = (True, lines)"
  shows "status (check_post_merge_ci_status rem) =
     (if \<forall>chk. Check chk \<notin> set lines then ''no_ci''
      else if \<exists>chk. Check chk \<in> set lines \<and> is_pending chk then ''pending''
      else if \<exists>chk. Check chk \<in> set lines \<and> is_failed chk then ''failure''
      else ''success'')"
  using assms
  by (auto simp: check_post_merge_ci_status_def Let_def parse_check_runs_fields jobs_loop_fields
      resolve_status_def initial_locals_def new_CICheckResult_def)


lemma sample_checks:
  "is_failed failed_check" "is_pending running_check" "\<not> is_pending failed_check"
  by (simp_all add: is_failed_def is_pending_def failed_check_def running_check_def
      failing_conclusions_def get_or_def)

lemma remote_with_fields:
  "pr_view (remote_with lines) = (True, Pr_data (Some ''abc123''))"
  "check_runs (remote_with lines) ''abc123'' = (True, lines)"
  by (simp_all add: remote_with_def)

text \<open>
  C2. When the merge commit is resolved and its check-runs are fetched: a check-run whose
  status is not \<open>completed\<close> makes the status \<open>pending\<close>, also when another check-run is
  completed with a failing conclusion; otherwise a failed check-run makes it \<open>failure\<close>;
  otherwise, with at least one check-run, it is \<open>success\<close>.
\<close>

theorem pending_takes_priority:
  assumes "pr_view rem = (True, Pr_data (Some commit_sha))"
    and "check_runs rem commit_sha = (True, lines)"
  shows "((\<exists>chk. Check chk \<in> set lines \<and> is_pending chk) \<longrightarrow>
            status (check_post_merge_ci_status rem) = ''pending'') \<and>
         (\<not> (\<exists>chk. Check chk \<in> set lines \<and> is_pending chk) \<and>
          (\<exists>chk. Check chk \<in> set lines \<and> is_failed chk) \<longrightarrow>
            status (check_post_merge_ci_status rem) = ''failure'') \<and>
         (\<not> (\<exists>chk. Check chk \<in> set lines \<and> is_pending chk) \<and>
          \<not> (\<exists>chk. Check chk \<in> set lines \<and> is_failed chk) \<and>
          (\<exists>chk. Check chk \<in> set lines) \<longrightarrow>
            status (check_post_merge_ci_status rem) = ''success'')"
  unfolding status_with_checks [OF assms] by auto

theorem pending_takes_priority_witness:
  "is_failed failed_check \<and>
   status (check_post_merge_ci_status (remote_with [Check failed_check, Check running_check])) =
     ''pending'' \<and>
   status (check_post_merge_ci_status (remote_with [Check failed_check])) = ''failure''"
proof -
  have p: "\<exists>chk. Check chk \<in> set [Check failed_check, Check running_check] \<and> is_pending chk"
    using sample_checks by auto
  have f: "\<exists>chk. Check chk \<in> set [Check failed_check] \<and> is_failed chk"
    and n: "\<not> (\<exists>chk. Check chk \<in> set [Check failed_check] \<and> is_pending chk)"
    using sample_checks by auto
  from pending_takes_priority [OF remote_with_fields, of "[Check failed_check, Check running_check]"]
    pending_takes_priority [OF remote_with_fields, of "[Check failed_check]"] p f n sample_checks
  show ?thesis by blast
qed

text \<open>
  C4. When the merge commit is resolved and the fetch of its check-runs succeeds with no
  check-run in the output, the result is \<open>CICheckResult(status="no_ci")\<close>, whose
  \<open>failed_checks\<close> and \<open>check_names\<close> are empty; and a result with status \<open>no_ci\<close> has
  both lists empty in every case.
\<close>

theorem no_check_runs_no_ci:
  "(pr_view rem = (True, Pr_data (Some commit_sha)) \<and>
    check_runs rem commit_sha = (True, lines) \<and> (\<forall>chk. Check chk \<notin> set lines) \<longrightarrow>
      check_post_merge_ci_status rem = new_CICheckResult ''no_ci'' \<and>
      failed_checks (check_post_merge_ci_status rem) = [] \<and>
      check_names (check_post_merge_ci_status rem) = []) \<and>
   (status (check_post_merge_ci_status rem) = ''no_ci'' \<longrightarrow>
      failed_checks (check_post_merge_ci_status rem) = [] \<and>
      check_names (check_post_merge_ci_status rem) = [])"
proof (intro conjI impI)
  assume a: "pr_view rem = (True, Pr_data (Some commit_sha)) \<and>
    check_runs rem commit_sha = (True, lines) \<and> (\<forall>chk. Check chk \<notin> set lines)"
  then have "\<not> l_has_checks (parse_check_runs lines initial_locals)"
    by (simp add: parse_check_runs_fields initial_locals_def)
  with a show r: "check_post_merge_ci_status rem = new_CICheckResult ''no_ci''"
    by (simp add: check_post_merge_ci_status_def Let_def)
  show "failed_checks (check_post_merge_ci_status rem) = []"
    and "check_names (check_post_merge_ci_status rem) = []"
    unfolding r by (simp_all add: new_CICheckResult_def)
next
  assume s: "status (check_post_merge_ci_status rem) = ''no_ci''"
  have "check_post_merge_ci_status rem = new_CICheckResult ''no_ci''"
    using s
    by (auto simp: check_post_merge_ci_status_def Let_def resolve_status_def new_CICheckResult_def
        split: prod.splits bool.splits pr_json.splits option.splits if_splits)
  then show "failed_checks (check_post_merge_ci_status rem) = []"
    and "check_names (check_post_merge_ci_status rem) = []"
    by (simp_all add: new_CICheckResult_def)
qed

theorem no_check_runs_no_ci_witness:
  "check_post_merge_ci_status (remote_with [Blank, Invalid_json]) = new_CICheckResult ''no_ci'' \<and>
   status (check_post_merge_ci_status (remote_with [Blank, Invalid_json])) = ''no_ci'' \<and>
   check_names (check_post_merge_ci_status (remote_with [Blank, Invalid_json])) = []"
  using no_check_runs_no_ci [where rem = "remote_with [Blank, Invalid_json]"
      and commit_sha = "''abc123''" and lines = "[Blank, Invalid_json]"]
  by (simp add: remote_with_fields new_CICheckResult_def)

text \<open>
  C9. A result with status \<open>pending\<close> has empty \<open>failed_checks\<close> and
  \<open>failed_check_urls\<close>, also when the check-runs hold completed ones with a failing
  conclusion: those collected are not put into the pending result.
\<close>

theorem pending_result_has_no_failed_checks:
  assumes "status (check_post_merge_ci_status rem) = ''pending''"
  shows "failed_checks (check_post_merge_ci_status rem) = [] \<and>
         failed_check_urls (check_post_merge_ci_status rem) = []"
  using assms
  by (auto simp: check_post_merge_ci_status_def Let_def resolve_status_def new_CICheckResult_def
      split: prod.splits bool.splits pr_json.splits option.splits if_splits)

theorem pending_result_has_no_failed_checks_witness:
  "is_failed failed_check \<and>
   status (check_post_merge_ci_status (remote_with [Check failed_check, Check running_check])) =
     ''pending'' \<and>
   failed_checks (check_post_merge_ci_status
     (remote_with [Check failed_check, Check running_check])) = [] \<and>
   failed_check_urls (check_post_merge_ci_status
     (remote_with [Check failed_check, Check running_check])) = []"
proof -
  have "\<exists>chk. Check chk \<in> set [Check failed_check, Check running_check] \<and> is_pending chk"
    using sample_checks by auto
  then have s: "status (check_post_merge_ci_status
      (remote_with [Check failed_check, Check running_check])) = ''pending''"
    unfolding status_with_checks [OF remote_with_fields] by auto
  from pending_result_has_no_failed_checks [OF s] s sample_checks show ?thesis by simp
qed

end
